theory Spec2Isabelle
  imports Complex_Main
begin

section \<open>Data model (src/src/hooks/useGemini.ts, second document: services/openai)\<close>

text \<open>
  \<^verbatim>\<open>interface ChatMessage { role: 'system' | 'user' | 'assistant'; content: string }\<close>
\<close>

datatype chat_role = System | User | Assistant

record ChatMessage =
  role :: chat_role
  content :: string

text \<open>
  \<^verbatim>\<open>interface GeminiMessage { role: 'user' | 'model'; parts: { text: string }[] }\<close>
  The field \<open>role\<close> of a Gemini turn is written \<open>g_role\<close>, since a record field is a
  constant of the theory and \<open>role\<close> is the field of \<open>ChatMessage\<close>.
\<close>

datatype gemini_role = GeminiUser | GeminiModel

record GeminiPart =
  "text" :: string

record GeminiMessage =
  g_role :: gemini_role
  parts :: "GeminiPart list"

text \<open>
  The options argument \<^verbatim>\<open>{ model?: string; temperature?: number; max_tokens?: number }\<close>:
  an optional field that is not given is \<open>None\<close>. A number is a \<open>real\<close>: the code does
  no arithmetic on it, it only passes it on.
\<close>

record options =
  model :: "string option"
  temperature :: "real option"
  max_tokens :: "real option"

text \<open>
  The objects handed to \<^verbatim>\<open>JSON.stringify\<close> as request bodies, before serialisation.
  Provider-A: \<^verbatim>\<open>{ model, messages, temperature, max_tokens }\<close>; Provider-B:
  \<^verbatim>\<open>{ contents, generationConfig: { temperature, maxOutputTokens } }\<close>.
\<close>

record OpenAICompletionRequest =
  req_model :: string
  messages :: "ChatMessage list"
  req_temperature :: real
  req_max_tokens :: "real option"

record generationConfig =
  gc_temperature :: real
  maxOutputTokens :: "real option"

record GeminiRequest =
  contents :: "GeminiMessage list"
  generationConfig :: generationConfig

datatype request_body = OpenAIBody OpenAICompletionRequest | GeminiBody GeminiRequest

text \<open>One call of \<^verbatim>\<open>fetch(url, { method, headers, body })\<close>; the field \<^verbatim>\<open>method\<close> is written \<open>http_method\<close>.\<close>

record request =
  url :: string
  http_method :: string
  headers :: "(string \<times> string) list"
  body :: request_body

text \<open>
  The parts of the response bodies that the code reads.
  \<^verbatim>\<open>OpenAICompletionResponse.choices: { index; message: ChatMessage; finish_reason }[]\<close> and
  \<^verbatim>\<open>GeminiResponse.candidates: { content: { parts: { text }[]; role }; finishReason }[]\<close>.
  The code tests \<^verbatim>\<open>!data.candidates\<close>, so a missing list is a value of the model: \<open>None\<close>.
\<close>

record choice =
  index :: real
  message :: ChatMessage
  finish_reason :: string

record OpenAICompletionResponse =
  choices :: "choice list"

record candidate_content =
  c_parts :: "GeminiPart list"
  c_role :: string

record candidate =
  c_content :: candidate_content
  finishReason :: string

record GeminiResponse =
  candidates :: "candidate list option"

text \<open>
  What a \<^verbatim>\<open>throw\<close> or a rejected promise carries: an error object with its
  \<^verbatim>\<open>message\<close>. \<open>Error\<close> is the one the code constructs itself with \<^verbatim>\<open>new Error(...)\<close>;
  the others are raised by the engine or by \<^verbatim>\<open>fetch\<close> and \<^verbatim>\<open>response.json()\<close>.
\<close>

datatype js_error = Error string | TypeError string | SyntaxError string | DOMException string

fun error_message :: "js_error \<Rightarrow> string" where
  "error_message (Error m) = m"
| "error_message (TypeError m) = m"
| "error_message (SyntaxError m) = m"
| "error_message (DOMException m) = m"

text \<open>
  The body of a response that is not ok, as far as \<^verbatim>\<open>error.error?.message\<close> reads it:
  the body \<^verbatim>\<open>null\<close> (reading \<^verbatim>\<open>.error\<close> of it raises a TypeError), or a body whose
  \<^verbatim>\<open>error?.message\<close> is a string or undefined.
\<close>

datatype error_body = NullBody | ErrorBody "string option"

text \<open>
  What \<^verbatim>\<open>await fetch(...)\<close> gives: the promise is rejected (network error), or it
  resolves to a response that is ok or not; \<^verbatim>\<open>await response.json()\<close> is then
  rejected (malformed body, \<open>Inl\<close>) or gives the parsed body.
\<close>

datatype 'd response = NotOk "js_error + error_body" | Ok "js_error + 'd"

datatype 'd fetch_outcome = Rejected js_error | Resolved "'d response"

text \<open>
  The environment of one call: the network, and the message the engine puts in the
  TypeError it raises when a property of \<^verbatim>\<open>undefined\<close> or \<^verbatim>\<open>null\<close> is read.
\<close>

record 'd env =
  fetch :: "request \<Rightarrow> 'd fetch_outcome"
  undefined_read :: string

text \<open>\<^verbatim>\<open>toast({ title, description, variant })\<close>, the notification side channel.\<close>

record toast =
  title :: string
  description :: string
  variant :: "string option"

text \<open>
  The state the two singleton services work on: the private field \<^verbatim>\<open>apiKey\<close> of each
  (\<^verbatim>\<open>null\<close> is \<open>None\<close>), the browser's \<^verbatim>\<open>localStorage\<close>, and what has been emitted so
  far: toasts, network requests, \<^verbatim>\<open>console.error\<close> lines.
\<close>

record state =
  openai_apiKey :: "string option"
  gemini_apiKey :: "string option"
  localStorage :: "string \<rightharpoonup> string"
  toasts :: "toast list"
  requests :: "request list"
  console :: "(string \<times> js_error) list"

text \<open>How a call ends: it returns a value, or an exception leaves it.\<close>

datatype 'a outcome = Returned 'a | Thrown js_error

text \<open>
  JavaScript truthiness of a \<^verbatim>\<open>string | null | undefined\<close>: only a non-empty string
  is truthy.
\<close>

definition truthy :: "string option \<Rightarrow> bool" where
  "truthy k = (case k of None \<Rightarrow> False | Some s \<Rightarrow> s \<noteq> [])"

text \<open>\<^verbatim>\<open>a || b\<close> on strings, \<^verbatim>\<open>a ?? b\<close> on numbers.\<close>

definition or_else :: "string option \<Rightarrow> string \<Rightarrow> string" where
  "or_else a b = (case a of None \<Rightarrow> b | Some s \<Rightarrow> if s = [] then b else s)"

definition nullish_else :: "'a option \<Rightarrow> 'a \<Rightarrow> 'a" where
  "nullish_else a b = (case a of None \<Rightarrow> b | Some v \<Rightarrow> v)"

section \<open>OpenAIService\<close>

definition OpenAI_baseUrl :: string where
  "OpenAI_baseUrl = ''https://api.openai.com/v1''"

definition OpenAI_defaultModel :: string where
  "OpenAI_defaultModel = ''gpt-4o-mini''"

definition OpenAI_setApiKey :: "string \<Rightarrow> state \<Rightarrow> bool \<times> state" where
  "OpenAI_setApiKey apiKey s =
     (True, s\<lparr>openai_apiKey := Some apiKey,
              localStorage := (localStorage s)(''openai_api_key'' \<mapsto> apiKey)\<rparr>)"

definition OpenAI_getApiKey :: "state \<Rightarrow> string option \<times> state" where
  "OpenAI_getApiKey s =
     (let s' = (if \<not> truthy (openai_apiKey s)
                then (let storedKey = localStorage s ''openai_api_key''
                      in if truthy storedKey then s\<lparr>openai_apiKey := storedKey\<rparr> else s)
                else s)
      in (openai_apiKey s', s'))"

definition OpenAI_clearApiKey :: "state \<Rightarrow> state" where
  "OpenAI_clearApiKey s =
     s\<lparr>openai_apiKey := None,
       localStorage := (localStorage s)(''openai_api_key'' := None)\<rparr>"

definition OpenAI_missing_toast :: toast where
  "OpenAI_missing_toast =
     \<lparr>title = ''API Key Missing'',
      description = ''Please set your OpenAI API key in the settings'',
      variant = Some ''destructive''\<rparr>"

definition failed_toast :: "js_error \<Rightarrow> toast" where
  "failed_toast e =
     \<lparr>title = ''AI Request Failed'',
      description = or_else (Some (error_message e)) ''Something went wrong'',
      variant = Some ''destructive''\<rparr>"

definition OpenAI_request :: "string \<Rightarrow> ChatMessage list \<Rightarrow> options \<Rightarrow> request" where
  "OpenAI_request apiKey msgs opts =
     \<lparr>url = OpenAI_baseUrl @ ''/chat/completions'',
      http_method = ''POST'',
      headers = [(''Content-Type'', ''application/json''),
                 (''Authorization'', ''Bearer '' @ apiKey)],
      body = OpenAIBody
        \<lparr>req_model = or_else (model opts) OpenAI_defaultModel,
         messages = msgs,
         req_temperature = nullish_else (temperature opts) (7 / 10),
         req_max_tokens = max_tokens opts\<rparr>\<rparr>"

text \<open>
  The \<^verbatim>\<open>try\<close> block of \<^verbatim>\<open>OpenAIService.createChatCompletion\<close>: \<open>Inl\<close> is the value
  thrown inside it, \<open>Inr\<close> the value it returns. \<^verbatim>\<open>data.choices[0].message\<close> on an
  empty list reads \<^verbatim>\<open>.message\<close> of \<^verbatim>\<open>undefined\<close>.
\<close>

definition OpenAI_try ::
  "OpenAICompletionResponse env \<Rightarrow> string \<Rightarrow> ChatMessage list \<Rightarrow> options \<Rightarrow> state
     \<Rightarrow> (js_error + ChatMessage) \<times> state" where
  "OpenAI_try e apiKey msgs opts s =
     (let req = OpenAI_request apiKey msgs opts;
          s1 = s\<lparr>requests := requests s @ [req]\<rparr>
      in case fetch e req of
           Rejected err \<Rightarrow> (Inl err, s1)
         | Resolved (NotOk parsed) \<Rightarrow>
             (case parsed of
                Inl err \<Rightarrow> (Inl err, s1)
              | Inr NullBody \<Rightarrow> (Inl (TypeError (undefined_read e)), s1)
              | Inr (ErrorBody m) \<Rightarrow>
                  (Inl (Error (or_else m ''Failed to connect to OpenAI API'')), s1))
         | Resolved (Ok parsed) \<Rightarrow>
             (case parsed of
                Inl err \<Rightarrow> (Inl err, s1)
              | Inr data \<Rightarrow>
                  (case choices data of
                     [] \<Rightarrow> (Inl (TypeError (undefined_read e)), s1)
                   | c # _ \<Rightarrow> (Inr (message c), s1))))"

text \<open>
  \<^verbatim>\<open>createChatCompletion\<close>: the credential check before the \<^verbatim>\<open>try\<close>, the \<^verbatim>\<open>try\<close>
  block, and the \<^verbatim>\<open>catch\<close> handler, which notifies, logs and returns \<^verbatim>\<open>null\<close>.
  Past the check \<^verbatim>\<open>!apiKey\<close> the key is a non-empty string, which \<open>the\<close> reads.
  The awaited promises are values of the model: settled, as \<open>fetch_outcome\<close> has them.
  This definition and the one of the Gemini service are the function in a browser where
  \<^verbatim>\<open>localStorage.getItem\<close>, \<^verbatim>\<open>toast\<close> and \<^verbatim>\<open>console.error\<close> work. These three calls
  stand outside the \<^verbatim>\<open>try\<close> block; the section on the calls outside the \<^verbatim>\<open>try\<close> block
  gives the function in a browser where they may throw.
\<close>

definition OpenAI_createChatCompletion ::
  "OpenAICompletionResponse env \<Rightarrow> ChatMessage list \<Rightarrow> options \<Rightarrow> state
     \<Rightarrow> ChatMessage option outcome \<times> state" where
  "OpenAI_createChatCompletion e msgs opts s =
     (case OpenAI_getApiKey s of
        (apiKey, s0) \<Rightarrow>
          if \<not> truthy apiKey
          then (Returned None, s0\<lparr>toasts := toasts s0 @ [OpenAI_missing_toast]\<rparr>)
          else (case OpenAI_try e (the apiKey) msgs opts s0 of
                  (Inr m, s1) \<Rightarrow> (Returned (Some m), s1)
                | (Inl err, s1) \<Rightarrow>
                    (Returned None,
                     s1\<lparr>toasts := toasts s1 @ [failed_toast err],
                        console := console s1 @ [(''OpenAI API Error:'', err)]\<rparr>)))"

section \<open>GeminiService\<close>

definition Gemini_baseUrl :: string where
  "Gemini_baseUrl = ''https://generativelanguage.googleapis.com/v1beta''"

definition Gemini_defaultModel :: string where
  "Gemini_defaultModel = ''gemini-pro''"

definition Gemini_setApiKey :: "string \<Rightarrow> state \<Rightarrow> bool \<times> state" where
  "Gemini_setApiKey apiKey s =
     (True, s\<lparr>gemini_apiKey := Some apiKey,
              localStorage := (localStorage s)(''gemini_api_key'' \<mapsto> apiKey)\<rparr>)"

definition Gemini_getApiKey :: "state \<Rightarrow> string option \<times> state" where
  "Gemini_getApiKey s =
     (let s' = (if \<not> truthy (gemini_apiKey s)
                then (let storedKey = localStorage s ''gemini_api_key''
                      in if truthy storedKey then s\<lparr>gemini_apiKey := storedKey\<rparr> else s)
                else s)
      in (gemini_apiKey s', s'))"

definition Gemini_clearApiKey :: "state \<Rightarrow> state" where
  "Gemini_clearApiKey s =
     s\<lparr>gemini_apiKey := None,
       localStorage := (localStorage s)(''gemini_api_key'' := None)\<rparr>"

text \<open>
  \<^verbatim>\<open>messages.filter(msg => msg.role !== 'system').map(msg => ({ role: msg.role ===
  'assistant' ? 'model' : 'user', parts: [{ text: msg.content }] }))\<close>
\<close>

definition convertToGeminiMessages :: "ChatMessage list \<Rightarrow> GeminiMessage list" where
  "convertToGeminiMessages msgs =
     map (\<lambda>msg. \<lparr>g_role = (if role msg = Assistant then GeminiModel else GeminiUser),
                 parts = [\<lparr>text = content msg\<rparr>]\<rparr>)
         (filter (\<lambda>msg. role msg \<noteq> System) msgs)"

text \<open>
  The first statements of the \<^verbatim>\<open>try\<close> block of \<^verbatim>\<open>GeminiService.createChatCompletion\<close>,
  which compute the local \<^verbatim>\<open>geminiMessages\<close>: find the first system message, convert,
  and overwrite \<^verbatim>\<open>geminiMessages[0].parts[0].text\<close> when there is a system message
  and the first turn has role \<^verbatim>\<open>'user'\<close>. The turns are fresh objects made by
  \<^verbatim>\<open>map\<close>, so the assignment changes no input message. Reading \<^verbatim>\<open>parts[0].text\<close> of
  a turn without parts would raise; \<open>ur\<close> is the engine's message for it.
\<close>

definition geminiMessages :: "string \<Rightarrow> ChatMessage list \<Rightarrow> js_error + GeminiMessage list" where
  "geminiMessages ur msgs =
     (let systemMessage = find (\<lambda>msg. role msg = System) msgs;
          gms = convertToGeminiMessages msgs
      in case systemMessage of
           None \<Rightarrow> Inr gms
         | Some sm \<Rightarrow>
             (case gms of
                [] \<Rightarrow> Inr gms
              | g # rest \<Rightarrow>
                  if g_role g = GeminiUser
                  then (case parts g of
                          [] \<Rightarrow> Inl (TypeError ur)
                        | p # ps \<Rightarrow>
                            Inr (g\<lparr>parts :=
                                     p\<lparr>text := content sm @ [CHR 0x0A, CHR 0x0A] @ text p\<rparr> # ps\<rparr>
                                 # rest))
                  else Inr gms))"

definition Gemini_missing_toast :: toast where
  "Gemini_missing_toast =
     \<lparr>title = ''API Key Missing'',
      description = ''Please set your Gemini API key in the settings'',
      variant = Some ''destructive''\<rparr>"

definition Gemini_request :: "string \<Rightarrow> GeminiMessage list \<Rightarrow> options \<Rightarrow> request" where
  "Gemini_request apiKey gms opts =
     (let model = or_else (model opts) Gemini_defaultModel
      in \<lparr>url = Gemini_baseUrl @ ''/models/'' @ model @ '':generateContent?key='' @ apiKey,
          http_method = ''POST'',
          headers = [(''Content-Type'', ''application/json'')],
          body = GeminiBody
            \<lparr>contents = gms,
             generationConfig =
               \<lparr>gc_temperature = nullish_else (temperature opts) (7 / 10),
                maxOutputTokens = max_tokens opts\<rparr>\<rparr>\<rparr>)"

text \<open>
  The part of the \<^verbatim>\<open>try\<close> block after \<^verbatim>\<open>response.json()\<close> has given \<^verbatim>\<open>data\<close>: the
  test for missing or empty candidates, then
  \<^verbatim>\<open>{ role: 'assistant', content: data.candidates[0].content.parts[0].text }\<close>.
\<close>

definition Gemini_result :: "string \<Rightarrow> GeminiResponse \<Rightarrow> js_error + ChatMessage" where
  "Gemini_result ur data =
     (case candidates data of
        None \<Rightarrow> Inl (Error ''No response generated from Gemini API'')
      | Some [] \<Rightarrow> Inl (Error ''No response generated from Gemini API'')
      | Some (c # _) \<Rightarrow>
          (case c_parts (c_content c) of
             [] \<Rightarrow> Inl (TypeError ur)
           | p # _ \<Rightarrow> Inr \<lparr>role = Assistant, content = text p\<rparr>))"

definition Gemini_try ::
  "GeminiResponse env \<Rightarrow> string \<Rightarrow> ChatMessage list \<Rightarrow> options \<Rightarrow> state
     \<Rightarrow> (js_error + ChatMessage) \<times> state" where
  "Gemini_try e apiKey msgs opts s =
     (case geminiMessages (undefined_read e) msgs of
        Inl err \<Rightarrow> (Inl err, s)
      | Inr gms \<Rightarrow>
          (let req = Gemini_request apiKey gms opts;
               s1 = s\<lparr>requests := requests s @ [req]\<rparr>
           in case fetch e req of
                Rejected err \<Rightarrow> (Inl err, s1)
              | Resolved (NotOk parsed) \<Rightarrow>
                  (case parsed of
                     Inl err \<Rightarrow> (Inl err, s1)
                   | Inr NullBody \<Rightarrow> (Inl (TypeError (undefined_read e)), s1)
                   | Inr (ErrorBody m) \<Rightarrow>
                       (Inl (Error (or_else m ''Failed to connect to Gemini API'')), s1))
              | Resolved (Ok parsed) \<Rightarrow>
                  (case parsed of
                     Inl err \<Rightarrow> (Inl err, s1)
                   | Inr data \<Rightarrow> (Gemini_result (undefined_read e) data, s1))))"

definition Gemini_createChatCompletion ::
  "GeminiResponse env \<Rightarrow> ChatMessage list \<Rightarrow> options \<Rightarrow> state
     \<Rightarrow> ChatMessage option outcome \<times> state" where
  "Gemini_createChatCompletion e msgs opts s =
     (case Gemini_getApiKey s of
        (apiKey, s0) \<Rightarrow>
          if \<not> truthy apiKey
          then (Returned None, s0\<lparr>toasts := toasts s0 @ [Gemini_missing_toast]\<rparr>)
          else (case Gemini_try e (the apiKey) msgs opts s0 of
                  (Inr m, s1) \<Rightarrow> (Returned (Some m), s1)
                | (Inl err, s1) \<Rightarrow>
                    (Returned None,
                     s1\<lparr>toasts := toasts s1 @ [failed_toast err],
                        console := console s1 @ [(''Gemini API Error:'', err)]\<rparr>)))"

section \<open>The calls outside the \<^verbatim>\<open>try\<close> block\<close>

text \<open>
  In \<^verbatim>\<open>createChatCompletion\<close> the call \<^verbatim>\<open>this.getApiKey()\<close>, which reads
  \<^verbatim>\<open>localStorage.getItem\<close> when the cache is falsy, and the missing-key \<^verbatim>\<open>toast\<close> come
  before \<^verbatim>\<open>try {\<close>; the \<^verbatim>\<open>toast\<close> and the \<^verbatim>\<open>console.error\<close> of the handler are inside
  \<^verbatim>\<open>catch\<close>. What any of them throws leaves the function. A browser says, for each of
  the three calls, whether it works (\<open>None\<close>) or throws (\<open>Some\<close> of what it throws), as
  \<^verbatim>\<open>localStorage\<close> does where storage is denied.
\<close>

record browser =
  getItem_error :: "js_error option"
  toast_error :: "js_error option"
  console_error :: "js_error option"

definition getItem_in :: "browser \<Rightarrow> state \<Rightarrow> string \<Rightarrow> string option outcome" where
  "getItem_in b s key =
     (case getItem_error b of Some err \<Rightarrow> Thrown err | None \<Rightarrow> Returned (localStorage s key))"

definition toast_in :: "browser \<Rightarrow> toast \<Rightarrow> state \<Rightarrow> unit outcome \<times> state" where
  "toast_in b t s =
     (case toast_error b of
        Some err \<Rightarrow> (Thrown err, s)
      | None \<Rightarrow> (Returned (), s\<lparr>toasts := toasts s @ [t]\<rparr>))"

definition console_error_in :: "browser \<Rightarrow> string \<times> js_error \<Rightarrow> state \<Rightarrow> unit outcome \<times> state" where
  "console_error_in b line s =
     (case console_error b of
        Some err \<Rightarrow> (Thrown err, s)
      | None \<Rightarrow> (Returned (), s\<lparr>console := console s @ [line]\<rparr>))"

text \<open>
  \<^verbatim>\<open>getApiKey\<close> and \<^verbatim>\<open>createChatCompletion\<close> of the two services again, statement by
  statement, with these calls: an exception outside the \<^verbatim>\<open>try\<close> block, or inside the
  handler, is the outcome \<open>Thrown\<close>. The \<^verbatim>\<open>try\<close> blocks are the ones defined above.
\<close>

definition OpenAI_getApiKey_in :: "browser \<Rightarrow> state \<Rightarrow> string option outcome \<times> state" where
  "OpenAI_getApiKey_in b s =
     (if \<not> truthy (openai_apiKey s)
      then (case getItem_in b s ''openai_api_key'' of
              Thrown err \<Rightarrow> (Thrown err, s)
            | Returned storedKey \<Rightarrow>
                (let s' = (if truthy storedKey then s\<lparr>openai_apiKey := storedKey\<rparr> else s)
                 in (Returned (openai_apiKey s'), s')))
      else (Returned (openai_apiKey s), s))"

definition OpenAI_createChatCompletion_in ::
  "browser \<Rightarrow> OpenAICompletionResponse env \<Rightarrow> ChatMessage list \<Rightarrow> options \<Rightarrow> state
     \<Rightarrow> ChatMessage option outcome \<times> state" where
  "OpenAI_createChatCompletion_in b e msgs opts s =
     (case OpenAI_getApiKey_in b s of
        (Thrown err, s0) \<Rightarrow> (Thrown err, s0)
      | (Returned apiKey, s0) \<Rightarrow>
          if \<not> truthy apiKey
          then (case toast_in b OpenAI_missing_toast s0 of
                  (Thrown err, s1) \<Rightarrow> (Thrown err, s1)
                | (Returned _, s1) \<Rightarrow> (Returned None, s1))
          else (case OpenAI_try e (the apiKey) msgs opts s0 of
                  (Inr m, s1) \<Rightarrow> (Returned (Some m), s1)
                | (Inl err, s1) \<Rightarrow>
                    (case toast_in b (failed_toast err) s1 of
                       (Thrown err', s2) \<Rightarrow> (Thrown err', s2)
                     | (Returned _, s2) \<Rightarrow>
                         (case console_error_in b (''OpenAI API Error:'', err) s2 of
                            (Thrown err', s3) \<Rightarrow> (Thrown err', s3)
                          | (Returned _, s3) \<Rightarrow> (Returned None, s3)))))"

definition Gemini_getApiKey_in :: "browser \<Rightarrow> state \<Rightarrow> string option outcome \<times> state" where
  "Gemini_getApiKey_in b s =
     (if \<not> truthy (gemini_apiKey s)
      then (case getItem_in b s ''gemini_api_key'' of
              Thrown err \<Rightarrow> (Thrown err, s)
            | Returned storedKey \<Rightarrow>
                (let s' = (if truthy storedKey then s\<lparr>gemini_apiKey := storedKey\<rparr> else s)
                 in (Returned (gemini_apiKey s'), s')))
      else (Returned (gemini_apiKey s), s))"

definition Gemini_createChatCompletion_in ::
  "browser \<Rightarrow> GeminiResponse env \<Rightarrow> ChatMessage list \<Rightarrow> options \<Rightarrow> state
     \<Rightarrow> ChatMessage option outcome \<times> state" where
  "Gemini_createChatCompletion_in b e msgs opts s =
     (case Gemini_getApiKey_in b s of
        (Thrown err, s0) \<Rightarrow> (Thrown err, s0)
      | (Returned apiKey, s0) \<Rightarrow>
          if \<not> truthy apiKey
          then (case toast_in b Gemini_missing_toast s0 of
                  (Thrown err, s1) \<Rightarrow> (Thrown err, s1)
                | (Returned _, s1) \<Rightarrow> (Returned None, s1))
          else (case Gemini_try e (the apiKey) msgs opts s0 of
                  (Inr m, s1) \<Rightarrow> (Returned (Some m), s1)
                | (Inl err, s1) \<Rightarrow>
                    (case toast_in b (failed_toast err) s1 of
                       (Thrown err', s2) \<Rightarrow> (Thrown err', s2)
                     | (Returned _, s2) \<Rightarrow>
                         (case console_error_in b (''Gemini API Error:'', err) s2 of
                            (Thrown err', s3) \<Rightarrow> (Thrown err', s3)
                          | (Returned _, s3) \<Rightarrow> (Returned None, s3)))))"

section \<open>Concrete inputs\<close>

text \<open>A browser in which nothing has been stored and nothing emitted.\<close>

definition fresh :: state where
  "fresh =
     \<lparr>openai_apiKey = None, gemini_apiKey = None, localStorage = Map.empty,
      toasts = [], requests = [], console = []\<rparr>"

definition no_options :: options where
  "no_options = \<lparr>model = None, temperature = None, max_tokens = None\<rparr>"

definition hi :: "ChatMessage list" where
  "hi = [\<lparr>role = User, content = ''Hi''\<rparr>]"

definition terse_hi :: "ChatMessage list" where
  "terse_hi = [\<lparr>role = System, content = ''Be terse.''\<rparr>, \<lparr>role = User, content = ''Hi''\<rparr>]"

definition engine_text :: string where
  "engine_text = ''Cannot read properties of undefined''"

text \<open>Provider-A answers 200 with one choice; in the second environment its role is user.\<close>

definition openai_answers :: "ChatMessage \<Rightarrow> OpenAICompletionResponse env" where
  "openai_answers m =
     \<lparr>fetch = (\<lambda>_. Resolved (Ok (Inr
         \<lparr>choices = [\<lparr>index = 0, message = m, finish_reason = ''stop''\<rparr>]\<rparr>))),
      undefined_read = engine_text\<rparr>"

text \<open>Provider-B answers 200 with the given candidates.\<close>

definition gemini_answers :: "candidate list option \<Rightarrow> GeminiResponse env" where
  "gemini_answers cs =
     \<lparr>fetch = (\<lambda>_. Resolved (Ok (Inr \<lparr>candidates = cs\<rparr>))),
      undefined_read = engine_text\<rparr>"

definition candidate_of :: "string list \<Rightarrow> candidate" where
  "candidate_of ts =
     \<lparr>c_content = \<lparr>c_parts = map (\<lambda>t. \<lparr>text = t\<rparr>) ts, c_role = ''model''\<rparr>,
      finishReason = ''STOP''\<rparr>"

text \<open>
  The in-memory cache of the Gemini service is lost (the page is loaded again, the
  singleton is constructed anew with \<^verbatim>\<open>apiKey = null\<close>); \<^verbatim>\<open>localStorage\<close> stays.
\<close>

definition Gemini_cache_reset :: "state \<Rightarrow> state" where
  "Gemini_cache_reset s = s\<lparr>gemini_apiKey := None\<rparr>"

definition hello :: ChatMessage where
  "hello = \<lparr>role = Assistant, content = ''Hello''\<rparr>"

definition chat :: "ChatMessage list" where
  "chat = [\<lparr>role = User, content = ''Hi''\<rparr>, hello, \<lparr>role = User, content = ''Bye''\<rparr>]"

text \<open>Options with the model set to the empty string and the temperature set to 0.\<close>

definition cold :: options where
  "cold = \<lparr>model = Some [], temperature = Some 0, max_tokens = None\<rparr>"

text \<open>The fresh browser after the user has saved a key for one provider.\<close>

definition with_openai_key :: "string \<Rightarrow> state" where
  "with_openai_key k = snd (OpenAI_setApiKey k fresh)"

definition with_gemini_key :: "string \<Rightarrow> state" where
  "with_gemini_key k = snd (Gemini_setApiKey k fresh)"

text \<open>Options with everything set, the temperature to 0.\<close>

definition warm :: options where
  "warm = \<lparr>model = Some ''gpt-4o'', temperature = Some 0, max_tokens = Some 64\<rparr>"

text \<open>A browser whose calls all work, and one whose storage read is refused.\<close>

definition quiet :: browser where
  "quiet = \<lparr>getItem_error = None, toast_error = None, console_error = None\<rparr>"

definition storage_denied :: browser where
  "storage_denied =
     \<lparr>getItem_error = Some (DOMException ''The operation is insecure.''),
      toast_error = None, console_error = None\<rparr>"

section \<open>Helper facts\<close>

lemma geminiMessages_total: "\<exists>gms. geminiMessages ur msgs = Inr gms"
  by (auto simp add: geminiMessages_def convertToGeminiMessages_def Let_def
      split: option.splits list.splits)

lemma Gemini_getApiKey_None:
  "fst (Gemini_getApiKey s) = None \<Longrightarrow> Gemini_getApiKey s = (None, s)"
  by (auto simp add: Gemini_getApiKey_def Let_def truthy_def split: if_splits option.splits)

lemma OpenAI_getApiKey_None:
  "fst (OpenAI_getApiKey s) = None \<Longrightarrow> OpenAI_getApiKey s = (None, s)"
  by (auto simp add: OpenAI_getApiKey_def Let_def truthy_def split: if_splits option.splits)

lemma Gemini_getApiKey_requests: "requests (snd (Gemini_getApiKey s)) = requests s"
  by (simp add: Gemini_getApiKey_def Let_def)

lemma OpenAI_getApiKey_requests: "requests (snd (OpenAI_getApiKey s)) = requests s"
  by (simp add: OpenAI_getApiKey_def Let_def)

lemma Gemini_getApiKey_effects:
  "toasts (snd (Gemini_getApiKey s)) = toasts s \<and>
   console (snd (Gemini_getApiKey s)) = console s"
  by (simp add: Gemini_getApiKey_def Let_def)

lemma OpenAI_try_requests:
  "requests (snd (OpenAI_try e k msgs opts s)) = requests s @ [OpenAI_request k msgs opts]"
  by (simp add: OpenAI_try_def Let_def
      split: sum.splits fetch_outcome.splits response.splits error_body.splits list.splits)

lemma Gemini_try_requests:
  "geminiMessages (undefined_read e) msgs = Inr gms \<Longrightarrow>
   requests (snd (Gemini_try e k msgs opts s)) = requests s @ [Gemini_request k gms opts]"
  by (simp add: Gemini_try_def Let_def
      split: sum.splits fetch_outcome.splits response.splits error_body.splits list.splits)

text \<open>With a truthy credential, a call performs exactly one request.\<close>

lemma OpenAI_createChatCompletion_requests:
  assumes "fst (OpenAI_getApiKey s) = Some k" and "k \<noteq> []"
  shows "requests (snd (OpenAI_createChatCompletion e msgs opts s))
           = requests s @ [OpenAI_request k msgs opts]"
proof -
  obtain s0 where g: "OpenAI_getApiKey s = (Some k, s0)"
    using assms(1) by (cases "OpenAI_getApiKey s") simp
  have r: "requests s0 = requests s"
    using OpenAI_getApiKey_requests [of s] by (simp add: g)
  obtain x s1 where t: "OpenAI_try e k msgs opts s0 = (x, s1)"
    by (cases "OpenAI_try e k msgs opts s0")
  have "requests s1 = requests s @ [OpenAI_request k msgs opts]"
    using OpenAI_try_requests [of e k msgs opts s0] by (simp add: t r)
  then show ?thesis
    using assms(2) by (simp add: OpenAI_createChatCompletion_def g truthy_def t split: sum.splits)
qed

lemma Gemini_createChatCompletion_requests:
  assumes "fst (Gemini_getApiKey s) = Some k" and "k \<noteq> []"
      and "geminiMessages (undefined_read e) msgs = Inr gms"
  shows "requests (snd (Gemini_createChatCompletion e msgs opts s))
           = requests s @ [Gemini_request k gms opts]"
proof -
  obtain s0 where g: "Gemini_getApiKey s = (Some k, s0)"
    using assms(1) by (cases "Gemini_getApiKey s") simp
  have r: "requests s0 = requests s"
    using Gemini_getApiKey_requests [of s] by (simp add: g)
  obtain x s1 where t: "Gemini_try e k msgs opts s0 = (x, s1)"
    by (cases "Gemini_try e k msgs opts s0")
  have "requests s1 = requests s @ [Gemini_request k gms opts]"
    using Gemini_try_requests [OF assms(3), of k opts s0] by (simp add: t r)
  then show ?thesis
    using assms(2) by (simp add: Gemini_createChatCompletion_def g truthy_def t split: sum.splits)
qed

text \<open>What a returned message is, when the \<^verbatim>\<open>try\<close> block returns one.\<close>

lemma Gemini_result_role: "Gemini_result ur data = Inr m \<Longrightarrow> role m = Assistant"
  by (auto simp add: Gemini_result_def split: option.splits list.splits)

lemma Gemini_try_role: "Gemini_try e k msgs opts s = (Inr m, s') \<Longrightarrow> role m = Assistant"
  by (auto simp add: Gemini_try_def Let_def dest: Gemini_result_role
      split: sum.splits fetch_outcome.splits response.splits error_body.splits)

lemma OpenAI_try_first_choice:
  "OpenAI_try e k msgs opts s = (Inr m, s') \<Longrightarrow>
   \<exists>data c cs. fetch e (OpenAI_request k msgs opts) = Resolved (Ok (Inr data)) \<and>
      choices data = c # cs \<and> m = message c"
  by (auto simp add: OpenAI_try_def Let_def
      split: sum.splits fetch_outcome.splits response.splits error_body.splits list.splits)

text \<open>The concrete inputs, evaluated.\<close>

lemma with_gemini_key_getApiKey: "fst (Gemini_getApiKey (with_gemini_key ''AI-1'')) = Some ''AI-1''"
  by (simp add: with_gemini_key_def Gemini_setApiKey_def Gemini_getApiKey_def truthy_def fresh_def)

lemma with_openai_key_getApiKey: "fst (OpenAI_getApiKey (with_openai_key ''sk-1'')) = Some ''sk-1''"
  by (simp add: with_openai_key_def OpenAI_setApiKey_def OpenAI_getApiKey_def truthy_def fresh_def)

lemma with_gemini_key_effects:
  "toasts (with_gemini_key k) = [] \<and> requests (with_gemini_key k) = [] \<and>
   console (with_gemini_key k) = []"
  by (simp add: with_gemini_key_def Gemini_setApiKey_def fresh_def)

lemma with_openai_key_effects:
  "toasts (with_openai_key k) = [] \<and> requests (with_openai_key k) = [] \<and>
   console (with_openai_key k) = []"
  by (simp add: with_openai_key_def OpenAI_setApiKey_def fresh_def)

lemma fresh_effects: "toasts fresh = [] \<and> requests fresh = [] \<and> console fresh = []"
  by (simp add: fresh_def)

lemma Gemini_setApiKey_effects:
  "toasts (snd (Gemini_setApiKey k s)) = toasts s \<and>
   requests (snd (Gemini_setApiKey k s)) = requests s \<and>
   console (snd (Gemini_setApiKey k s)) = console s"
  by (simp add: Gemini_setApiKey_def)

lemma hi_turns:
  "geminiMessages ur hi = Inr [\<lparr>g_role = GeminiUser, parts = [\<lparr>text = ''Hi''\<rparr>]\<rparr>]"
  by (simp add: geminiMessages_def convertToGeminiMessages_def hi_def)

text \<open>
  In a browser whose three calls work, the function with the calls is the function
  defined first; and whatever the browser, what the function throws is what one of the
  three calls throws.
\<close>

lemma OpenAI_getApiKey_in_quiet:
  "getItem_error b = None \<Longrightarrow>
   OpenAI_getApiKey_in b s = (Returned (fst (OpenAI_getApiKey s)), snd (OpenAI_getApiKey s))"
  by (simp add: OpenAI_getApiKey_in_def OpenAI_getApiKey_def getItem_in_def Let_def)

lemma Gemini_getApiKey_in_quiet:
  "getItem_error b = None \<Longrightarrow>
   Gemini_getApiKey_in b s = (Returned (fst (Gemini_getApiKey s)), snd (Gemini_getApiKey s))"
  by (simp add: Gemini_getApiKey_in_def Gemini_getApiKey_def getItem_in_def Let_def)

lemma OpenAI_createChatCompletion_in_quiet:
  assumes "getItem_error b = None" "toast_error b = None" "console_error b = None"
  shows "OpenAI_createChatCompletion_in b e msgs opts s = OpenAI_createChatCompletion e msgs opts s"
  using assms
  by (simp add: OpenAI_createChatCompletion_in_def OpenAI_createChatCompletion_def
      OpenAI_getApiKey_in_quiet toast_in_def console_error_in_def
      split: prod.splits sum.splits)

lemma Gemini_createChatCompletion_in_quiet:
  assumes "getItem_error b = None" "toast_error b = None" "console_error b = None"
  shows "Gemini_createChatCompletion_in b e msgs opts s = Gemini_createChatCompletion e msgs opts s"
  using assms
  by (simp add: Gemini_createChatCompletion_in_def Gemini_createChatCompletion_def
      Gemini_getApiKey_in_quiet toast_in_def console_error_in_def
      split: prod.splits sum.splits)

lemma OpenAI_getApiKey_in_cases:
  "(\<exists>err. OpenAI_getApiKey_in b s = (Thrown err, s) \<and> getItem_error b = Some err) \<or>
   OpenAI_getApiKey_in b s = (Returned (fst (OpenAI_getApiKey s)), snd (OpenAI_getApiKey s))"
  by (auto simp add: OpenAI_getApiKey_in_def OpenAI_getApiKey_def getItem_in_def Let_def
      split: option.splits)

lemma Gemini_getApiKey_in_cases:
  "(\<exists>err. Gemini_getApiKey_in b s = (Thrown err, s) \<and> getItem_error b = Some err) \<or>
   Gemini_getApiKey_in b s = (Returned (fst (Gemini_getApiKey s)), snd (Gemini_getApiKey s))"
  by (auto simp add: Gemini_getApiKey_in_def Gemini_getApiKey_def getItem_in_def Let_def
      split: option.splits)

lemma OpenAI_outcome:
  "(case fst (OpenAI_createChatCompletion_in b ea msgs opts s) of
      Thrown err \<Rightarrow> Some err \<in> {getItem_error b, toast_error b, console_error b}
    | Returned None \<Rightarrow> True
    | Returned (Some m) \<Rightarrow> \<exists>k data c cs.
        fst (OpenAI_getApiKey s) = Some k \<and>
        fetch ea (OpenAI_request k msgs opts) = Resolved (Ok (Inr data)) \<and>
        choices data = c # cs \<and> m = message c)"
  using OpenAI_getApiKey_in_cases [of b s]
proof (elim disjE exE conjE)
  fix err
  assume "OpenAI_getApiKey_in b s = (Thrown err, s)" and "getItem_error b = Some err"
  then show ?thesis
    by (simp add: OpenAI_createChatCompletion_in_def)
next
  assume g: "OpenAI_getApiKey_in b s
               = (Returned (fst (OpenAI_getApiKey s)), snd (OpenAI_getApiKey s))"
  obtain k s0 where p: "OpenAI_getApiKey s = (k, s0)"
    by (cases "OpenAI_getApiKey s")
  show ?thesis
  proof (cases "truthy k")
    case False
    then show ?thesis
      by (simp add: OpenAI_createChatCompletion_in_def g p toast_in_def split: option.splits)
  next
    case True
    then obtain key where k: "k = Some key"
      by (auto simp add: truthy_def split: option.splits)
    obtain x s1 where t: "OpenAI_try ea key msgs opts s0 = (x, s1)"
      by (cases "OpenAI_try ea key msgs opts s0")
    show ?thesis
    proof (cases x)
      case (Inl err)
      then show ?thesis
        using True
        by (simp add: OpenAI_createChatCompletion_in_def g p k t toast_in_def
            console_error_in_def split: option.splits)
    next
      case (Inr m)
      then have "\<exists>data c cs. fetch ea (OpenAI_request key msgs opts) = Resolved (Ok (Inr data)) \<and>
          choices data = c # cs \<and> m = message c"
        using OpenAI_try_first_choice [of ea key msgs opts s0 m s1] t by simp
      then show ?thesis
        using True Inr
        by (simp add: OpenAI_createChatCompletion_in_def g p k t)
    qed
  qed
qed

lemma Gemini_outcome:
  "(case fst (Gemini_createChatCompletion_in b eb msgs opts s) of
      Thrown err \<Rightarrow> Some err \<in> {getItem_error b, toast_error b, console_error b}
    | Returned None \<Rightarrow> True
    | Returned (Some m) \<Rightarrow> role m = Assistant)"
  using Gemini_getApiKey_in_cases [of b s]
proof (elim disjE exE conjE)
  fix err
  assume "Gemini_getApiKey_in b s = (Thrown err, s)" and "getItem_error b = Some err"
  then show ?thesis
    by (simp add: Gemini_createChatCompletion_in_def)
next
  assume g: "Gemini_getApiKey_in b s
               = (Returned (fst (Gemini_getApiKey s)), snd (Gemini_getApiKey s))"
  obtain k s0 where p: "Gemini_getApiKey s = (k, s0)"
    by (cases "Gemini_getApiKey s")
  show ?thesis
  proof (cases "truthy k")
    case False
    then show ?thesis
      by (simp add: Gemini_createChatCompletion_in_def g p toast_in_def split: option.splits)
  next
    case True
    then obtain key where k: "k = Some key"
      by (auto simp add: truthy_def split: option.splits)
    obtain x s1 where t: "Gemini_try eb key msgs opts s0 = (x, s1)"
      by (cases "Gemini_try eb key msgs opts s0")
    show ?thesis
    proof (cases x)
      case (Inl err)
      then show ?thesis
        using True
        by (simp add: Gemini_createChatCompletion_in_def g p k t toast_in_def
            console_error_in_def split: option.splits)
    next
      case (Inr m)
      then have "role m = Assistant"
        using Gemini_try_role [of eb key msgs opts s0 m s1] t by simp
      then show ?thesis
        using True Inr
        by (simp add: Gemini_createChatCompletion_in_def g p k t)
    qed
  qed
qed

section \<open>The credential store\<close>

text \<open>
  Claim C7. From every state of the cache and of the durable storage, \<^verbatim>\<open>clearApiKey()\<close>
  followed by \<^verbatim>\<open>getApiKey()\<close> returns \<^verbatim>\<open>null\<close>: \<^verbatim>\<open>clearApiKey\<close> leaves the cache
  \<^verbatim>\<open>null\<close> and the provider's key absent from \<^verbatim>\<open>localStorage\<close>. Stated for both
  services, whose store code is the same up to the storage key.
\<close>

theorem clearApiKey_then_getApiKey_absent:
  "fst (Gemini_getApiKey (Gemini_clearApiKey s)) = None \<and>
   gemini_apiKey (Gemini_clearApiKey s) = None \<and>
   localStorage (Gemini_clearApiKey s) ''gemini_api_key'' = None \<and>
   fst (OpenAI_getApiKey (OpenAI_clearApiKey s)) = None \<and>
   openai_apiKey (OpenAI_clearApiKey s) = None \<and>
   localStorage (OpenAI_clearApiKey s) ''openai_api_key'' = None"
  by (simp add: Gemini_getApiKey_def Gemini_clearApiKey_def OpenAI_getApiKey_def
      OpenAI_clearApiKey_def truthy_def Let_def)

text \<open>
  Claim C6, as written, fails for the empty secret: after \<^verbatim>\<open>setApiKey("")\<close> and a reset
  of the cache, \<^verbatim>\<open>localStorage\<close> still holds the empty string, but \<^verbatim>\<open>getApiKey()\<close>
  returns \<^verbatim>\<open>null\<close>, because \<^verbatim>\<open>if (storedKey)\<close> tests truthiness.
\<close>

theorem getApiKey_after_reset_empty_secret:
  "localStorage (Gemini_cache_reset (snd (Gemini_setApiKey [] fresh))) ''gemini_api_key''
     = Some [] \<and>
   fst (Gemini_getApiKey (Gemini_cache_reset (snd (Gemini_setApiKey [] fresh)))) \<noteq> Some []"
  by (simp add: Gemini_getApiKey_def Gemini_setApiKey_def Gemini_cache_reset_def truthy_def
      Let_def fresh_def)

text \<open>
  Claim C6, amended. For every secret \<open>X\<close> and every prior state, \<^verbatim>\<open>getApiKey()\<close> right
  after \<^verbatim>\<open>setApiKey(X)\<close> returns \<open>X\<close>; and for every non-empty \<open>X\<close> it also returns
  \<open>X\<close> after the cache has been reset with the durable storage intact, the read-through
  putting \<open>X\<close> back into the cache.
\<close>

theorem getApiKey_after_setApiKey:
  "fst (Gemini_getApiKey (snd (Gemini_setApiKey X s))) = Some X \<and>
   (X \<noteq> [] \<longrightarrow>
      fst (Gemini_getApiKey (Gemini_cache_reset (snd (Gemini_setApiKey X s)))) = Some X \<and>
      gemini_apiKey (snd (Gemini_getApiKey (Gemini_cache_reset (snd (Gemini_setApiKey X s)))))
        = Some X)"
  by (simp add: Gemini_getApiKey_def Gemini_setApiKey_def Gemini_cache_reset_def truthy_def
      Let_def)

theorem getApiKey_after_setApiKey_witness:
  "''X'' \<noteq> [] \<and>
   fst (Gemini_getApiKey (snd (Gemini_setApiKey ''X'' fresh))) = Some ''X'' \<and>
   fst (Gemini_getApiKey (Gemini_cache_reset (snd (Gemini_setApiKey ''X'' fresh)))) = Some ''X''"
  using getApiKey_after_setApiKey [of "''X''" fresh] by simp

section \<open>The message translator\<close>

text \<open>
  Claim C1. Take a message list that contains a system message (\<open>sm\<close> is the first one,
  the one \<^verbatim>\<open>find\<close> gives) and whose first non-system message \<open>u\<close> has role user.
  The turns sent to Provider-B are then: a first turn of role user whose single text is
  the content of \<open>sm\<close>, two newlines, the content of \<open>u\<close>; and after it one turn for each
  further non-system message, with that message's content unchanged as its single text.
  No turn stands for a system message.
\<close>

theorem gemini_system_message_merged:
  assumes "find (\<lambda>m. role m = System) msgs = Some sm"
      and "filter (\<lambda>m. role m \<noteq> System) msgs = u # rest"
      and "role u = User"
  shows "geminiMessages ur msgs =
           Inr (\<lparr>g_role = GeminiUser,
                 parts = [\<lparr>text = content sm @ [CHR 0x0A, CHR 0x0A] @ content u\<rparr>]\<rparr>
                # map (\<lambda>m. \<lparr>g_role = (if role m = Assistant then GeminiModel else GeminiUser),
                              parts = [\<lparr>text = content m\<rparr>]\<rparr>) rest)"
  using assms by (simp add: geminiMessages_def convertToGeminiMessages_def)

theorem gemini_system_message_merged_witness:
  "find (\<lambda>m. role m = System) terse_hi = Some \<lparr>role = System, content = ''Be terse.''\<rparr> \<and>
   filter (\<lambda>m. role m \<noteq> System) terse_hi = [\<lparr>role = User, content = ''Hi''\<rparr>] \<and>
   geminiMessages engine_text terse_hi =
     Inr [\<lparr>g_role = GeminiUser,
           parts = [\<lparr>text = ''Be terse.'' @ [CHR 0x0A, CHR 0x0A] @ ''Hi''\<rparr>]\<rparr>]"
  using gemini_system_message_merged [of terse_hi "\<lparr>role = System, content = ''Be terse.''\<rparr>"
      "\<lparr>role = User, content = ''Hi''\<rparr>" "[]" engine_text]
  by (simp add: terse_hi_def)

text \<open>
  Claim C2. For a message list without any system message, the turns sent to Provider-B
  are the messages one for one, in order: role assistant becomes model, role user stays
  user, and the content is the single text part, unchanged. (The third branch of the
  \<open>case\<close> is never taken under the hypothesis.)
\<close>

theorem gemini_translation_without_system:
  assumes "\<forall>m \<in> set msgs. role m \<noteq> System"
  shows "geminiMessages ur msgs =
           Inr (map (\<lambda>m. \<lparr>g_role = (case role m of Assistant \<Rightarrow> GeminiModel
                                        | User \<Rightarrow> GeminiUser | System \<Rightarrow> GeminiUser),
                          parts = [\<lparr>text = content m\<rparr>]\<rparr>) msgs)"
proof -
  have f: "find (\<lambda>m. role m = System) msgs = None"
    using assms by (simp add: find_None_iff)
  have g: "filter (\<lambda>m. role m \<noteq> System) msgs = msgs"
    using assms by simp
  show ?thesis
    by (auto simp add: geminiMessages_def convertToGeminiMessages_def f g split: chat_role.splits)
qed

theorem gemini_translation_without_system_witness:
  "map role chat = [User, Assistant, User] \<and>
   geminiMessages engine_text chat =
     Inr [\<lparr>g_role = GeminiUser, parts = [\<lparr>text = ''Hi''\<rparr>]\<rparr>,
          \<lparr>g_role = GeminiModel, parts = [\<lparr>text = ''Hello''\<rparr>]\<rparr>,
          \<lparr>g_role = GeminiUser, parts = [\<lparr>text = ''Bye''\<rparr>]\<rparr>]"
  using gemini_translation_without_system [of chat engine_text]
  by (simp add: chat_def hello_def)

section \<open>The provider clients\<close>

text \<open>
  Claim C3, as written, fails in two ways. Provider-A's client returns the first choice's
  message as the provider sent it and does not look at its role, so a response whose
  first choice has role user makes it return a message that is not an assistant message.
  And in a browser that refuses the storage read, with no key in the cache,
  \<^verbatim>\<open>this.getApiKey()\<close> throws before the \<^verbatim>\<open>try\<close> block is entered, and the exception
  leaves \<^verbatim>\<open>createChatCompletion\<close> of either client.
\<close>

theorem createChatCompletion_throws_or_other_role:
  "fst (OpenAI_createChatCompletion_in quiet (openai_answers \<lparr>role = User, content = ''Hi''\<rparr>) hi
          no_options (with_openai_key ''sk-1''))
     = Returned (Some \<lparr>role = User, content = ''Hi''\<rparr>) \<and>
   fst (OpenAI_createChatCompletion_in storage_denied (openai_answers hello) hi no_options fresh)
     = Thrown (DOMException ''The operation is insecure.'') \<and>
   fst (Gemini_createChatCompletion_in storage_denied (gemini_answers (Some [candidate_of [''Hello'']]))
          hi no_options fresh)
     = Thrown (DOMException ''The operation is insecure.'')"
  by (simp add: OpenAI_createChatCompletion_in_def Gemini_createChatCompletion_in_def
      OpenAI_getApiKey_in_def Gemini_getApiKey_in_def getItem_in_def OpenAI_try_def Let_def
      with_openai_key_def OpenAI_setApiKey_def truthy_def openai_answers_def fresh_def
      quiet_def storage_denied_def)

text \<open>
  Claim C3, amended. For every message list, every options record, every state and every
  behaviour of the network (rejected request, response that is not ok, body that does not
  parse, empty or missing choices or candidates): where the calls outside the \<^verbatim>\<open>try\<close>
  block (the storage read of \<^verbatim>\<open>getApiKey\<close>, \<^verbatim>\<open>toast\<close>, \<^verbatim>\<open>console.error\<close>) do not throw,
  \<^verbatim>\<open>createChatCompletion\<close> of either client ends by returning. Whatever the browser, an
  exception that leaves it is one thrown by one of those three calls, never one raised
  inside the \<^verbatim>\<open>try\<close> block; and what it returns is \<^verbatim>\<open>null\<close> or a message: for Provider-B
  a message of role assistant, for Provider-A the message of the first choice of the
  parsed response, whatever its role.
\<close>

theorem createChatCompletion_exceptions:
  "(getItem_error b = None \<and> toast_error b = None \<and> console_error b = None \<longrightarrow>
      (\<exists>r. fst (OpenAI_createChatCompletion_in b ea msgs opts s) = Returned r) \<and>
      (\<exists>r. fst (Gemini_createChatCompletion_in b eb msgs opts s) = Returned r)) \<and>
   (case fst (OpenAI_createChatCompletion_in b ea msgs opts s) of
      Thrown err \<Rightarrow> Some err \<in> {getItem_error b, toast_error b, console_error b}
    | Returned None \<Rightarrow> True
    | Returned (Some m) \<Rightarrow> \<exists>k data c cs.
        fst (OpenAI_getApiKey s) = Some k \<and>
        fetch ea (OpenAI_request k msgs opts) = Resolved (Ok (Inr data)) \<and>
        choices data = c # cs \<and> m = message c) \<and>
   (case fst (Gemini_createChatCompletion_in b eb msgs opts s) of
      Thrown err \<Rightarrow> Some err \<in> {getItem_error b, toast_error b, console_error b}
    | Returned None \<Rightarrow> True
    | Returned (Some m) \<Rightarrow> role m = Assistant)"
proof (intro conjI impI)
  assume q: "getItem_error b = None \<and> toast_error b = None \<and> console_error b = None"
  show "\<exists>r. fst (OpenAI_createChatCompletion_in b ea msgs opts s) = Returned r"
    using q OpenAI_outcome [where b = b and ea = ea and msgs = msgs and opts = opts and s = s]
    by (cases "fst (OpenAI_createChatCompletion_in b ea msgs opts s)") simp_all
  show "\<exists>r. fst (Gemini_createChatCompletion_in b eb msgs opts s) = Returned r"
    using q Gemini_outcome [where b = b and eb = eb and msgs = msgs and opts = opts and s = s]
    by (cases "fst (Gemini_createChatCompletion_in b eb msgs opts s)") simp_all
next
  show "(case fst (OpenAI_createChatCompletion_in b ea msgs opts s) of
      Thrown err \<Rightarrow> Some err \<in> {getItem_error b, toast_error b, console_error b}
    | Returned None \<Rightarrow> True
    | Returned (Some m) \<Rightarrow> \<exists>k data c cs.
        fst (OpenAI_getApiKey s) = Some k \<and>
        fetch ea (OpenAI_request k msgs opts) = Resolved (Ok (Inr data)) \<and>
        choices data = c # cs \<and> m = message c)"
    by (rule OpenAI_outcome)
next
  show "(case fst (Gemini_createChatCompletion_in b eb msgs opts s) of
      Thrown err \<Rightarrow> Some err \<in> {getItem_error b, toast_error b, console_error b}
    | Returned None \<Rightarrow> True
    | Returned (Some m) \<Rightarrow> role m = Assistant)"
    by (rule Gemini_outcome)
qed

theorem createChatCompletion_exceptions_witness:
  "getItem_error quiet = None \<and> toast_error quiet = None \<and> console_error quiet = None \<and>
   (\<exists>r. fst (OpenAI_createChatCompletion_in quiet (openai_answers hello) hi no_options
              (with_openai_key ''sk-1'')) = Returned r) \<and>
   (\<exists>r. fst (Gemini_createChatCompletion_in quiet (gemini_answers (Some [])) hi no_options
              (with_gemini_key ''AI-1'')) = Returned r)"
  using createChatCompletion_exceptions [where b = quiet and ea = "openai_answers hello"
      and msgs = hi and opts = no_options and s = "with_openai_key ''sk-1''"]
    createChatCompletion_exceptions [where b = quiet and eb = "gemini_answers (Some [])"
      and msgs = hi and opts = no_options and s = "with_gemini_key ''AI-1''"]
  by (simp add: quiet_def)

text \<open>
  Claim C4. When \<^verbatim>\<open>getApiKey()\<close> gives \<^verbatim>\<open>null\<close>, \<^verbatim>\<open>createChatCompletion\<close> returns
  \<^verbatim>\<open>null\<close> and changes the state in one way only: the provider's "API Key Missing" toast
  is added, once. In particular the list of network requests is as it was.
\<close>

theorem createChatCompletion_missing_credential:
  "(fst (OpenAI_getApiKey s) = None \<longrightarrow>
      OpenAI_createChatCompletion ea msgs opts s =
        (Returned None, s\<lparr>toasts := toasts s @ [OpenAI_missing_toast]\<rparr>) \<and>
      requests (snd (OpenAI_createChatCompletion ea msgs opts s)) = requests s) \<and>
   (fst (Gemini_getApiKey s) = None \<longrightarrow>
      Gemini_createChatCompletion eb msgs opts s =
        (Returned None, s\<lparr>toasts := toasts s @ [Gemini_missing_toast]\<rparr>) \<and>
      requests (snd (Gemini_createChatCompletion eb msgs opts s)) = requests s)"
  by (auto simp add: OpenAI_createChatCompletion_def Gemini_createChatCompletion_def truthy_def
      dest!: OpenAI_getApiKey_None Gemini_getApiKey_None)

theorem createChatCompletion_missing_credential_witness:
  "fst (OpenAI_getApiKey fresh) = None \<and> fst (Gemini_getApiKey fresh) = None \<and>
   fst (OpenAI_createChatCompletion (openai_answers hello) hi no_options fresh) = Returned None \<and>
   toasts (snd (OpenAI_createChatCompletion (openai_answers hello) hi no_options fresh))
     = [\<lparr>title = ''API Key Missing'',
         description = ''Please set your OpenAI API key in the settings'',
         variant = Some ''destructive''\<rparr>] \<and>
   requests (snd (OpenAI_createChatCompletion (openai_answers hello) hi no_options fresh)) = [] \<and>
   fst (Gemini_createChatCompletion (gemini_answers None) hi no_options fresh) = Returned None \<and>
   toasts (snd (Gemini_createChatCompletion (gemini_answers None) hi no_options fresh))
     = [\<lparr>title = ''API Key Missing'',
         description = ''Please set your Gemini API key in the settings'',
         variant = Some ''destructive''\<rparr>] \<and>
   requests (snd (Gemini_createChatCompletion (gemini_answers None) hi no_options fresh)) = []"
  using createChatCompletion_missing_credential
    [of fresh "openai_answers hello" hi no_options "gemini_answers None"]
  by (simp add: fresh_def OpenAI_getApiKey_def Gemini_getApiKey_def truthy_def
      OpenAI_missing_toast_def Gemini_missing_toast_def)

text \<open>
  Claim C5, as written, fails where the first candidate has no part (a candidate list
  typed \<^verbatim>\<open>{ content: { parts: { text }[] } }[]\<close> allows it): reading
  \<^verbatim>\<open>parts[0].text\<close> raises a TypeError, the handler catches it, and the call returns
  \<^verbatim>\<open>null\<close> although the response has a candidate.
\<close>

theorem gemini_missing_first_part:
  "candidates \<lparr>candidates = Some [candidate_of []]\<rparr> = Some [candidate_of []] \<and>
   fetch (gemini_answers (Some [candidate_of []]))
       (Gemini_request ''AI-1'' [\<lparr>g_role = GeminiUser, parts = [\<lparr>text = ''Hi''\<rparr>]\<rparr>] no_options)
     = Resolved (Ok (Inr \<lparr>candidates = Some [candidate_of []]\<rparr>)) \<and>
   fst (Gemini_createChatCompletion (gemini_answers (Some [candidate_of []])) hi no_options
          (with_gemini_key ''AI-1''))
     = Returned None"
  by (simp add: with_gemini_key_def Gemini_setApiKey_def Gemini_getApiKey_def truthy_def
      gemini_answers_def fresh_def geminiMessages_def convertToGeminiMessages_def hi_def
      Gemini_createChatCompletion_def Gemini_try_def Gemini_result_def candidate_of_def Let_def)

text \<open>
  Claim C5, amended. Let the credential be truthy and the response be ok with a body that
  parses to \<open>data\<close>. If the candidates of \<open>data\<close> are missing or empty, the call returns
  \<^verbatim>\<open>null\<close>, and the error it notifies and logs is the one the code raises for an empty
  response, \<^verbatim>\<open>Error('No response generated from Gemini API')\<close>. If there is a first
  candidate and it has a first part, the call returns the assistant message whose content
  is that part's text.
\<close>

theorem gemini_response_to_uniform:
  assumes key: "fst (Gemini_getApiKey s) = Some k" "k \<noteq> []"
      and gms: "geminiMessages (undefined_read e) msgs = Inr gms"
      and resp: "fetch e (Gemini_request k gms opts) = Resolved (Ok (Inr data))"
  shows "(candidates data = None \<or> candidates data = Some [] \<longrightarrow>
            fst (Gemini_createChatCompletion e msgs opts s) = Returned None \<and>
            toasts (snd (Gemini_createChatCompletion e msgs opts s))
              = toasts s @ [failed_toast (Error ''No response generated from Gemini API'')] \<and>
            console (snd (Gemini_createChatCompletion e msgs opts s))
              = console s @ [(''Gemini API Error:'',
                              Error ''No response generated from Gemini API'')]) \<and>
         (candidates data = Some (c # cs) \<and> c_parts (c_content c) = p # ps \<longrightarrow>
            fst (Gemini_createChatCompletion e msgs opts s)
              = Returned (Some \<lparr>role = Assistant, content = text p\<rparr>))"
proof -
  obtain s0 where g: "Gemini_getApiKey s = (Some k, s0)"
    using key(1) by (cases "Gemini_getApiKey s") simp
  have eff: "toasts s0 = toasts s" "console s0 = console s"
    using Gemini_getApiKey_effects [of s] by (simp_all add: g)
  show ?thesis
    using key(2) gms resp eff
    by (auto simp add: Gemini_createChatCompletion_def g truthy_def Gemini_try_def Let_def
        Gemini_result_def)
qed

theorem gemini_response_to_uniform_witness:
  "fst (Gemini_getApiKey (with_gemini_key ''AI-1'')) = Some ''AI-1'' \<and> ''AI-1'' \<noteq> [] \<and>
   geminiMessages engine_text hi = Inr [\<lparr>g_role = GeminiUser, parts = [\<lparr>text = ''Hi''\<rparr>]\<rparr>] \<and>
   fst (Gemini_createChatCompletion (gemini_answers (Some [])) hi no_options
          (with_gemini_key ''AI-1'')) = Returned None \<and>
   toasts (snd (Gemini_createChatCompletion (gemini_answers (Some [])) hi no_options
          (with_gemini_key ''AI-1'')))
     = [\<lparr>title = ''AI Request Failed'', description = ''No response generated from Gemini API'',
         variant = Some ''destructive''\<rparr>] \<and>
   fst (Gemini_createChatCompletion (gemini_answers (Some [candidate_of [''Hello'', ''there'']]))
          hi no_options (with_gemini_key ''AI-1''))
     = Returned (Some \<lparr>role = Assistant, content = ''Hello''\<rparr>)"
  using gemini_response_to_uniform [of "with_gemini_key ''AI-1''" "''AI-1''"
      "gemini_answers (Some [])" hi
      "[\<lparr>g_role = GeminiUser, parts = [\<lparr>text = ''Hi''\<rparr>]\<rparr>]" no_options
      "\<lparr>candidates = Some []\<rparr>"]
    gemini_response_to_uniform [of "with_gemini_key ''AI-1''" "''AI-1''"
      "gemini_answers (Some [candidate_of [''Hello'', ''there'']])" hi
      "[\<lparr>g_role = GeminiUser, parts = [\<lparr>text = ''Hi''\<rparr>]\<rparr>]" no_options
      "\<lparr>candidates = Some [candidate_of [''Hello'', ''there'']]\<rparr>"
      "candidate_of [''Hello'', ''there'']" "[]" "\<lparr>text = ''Hello''\<rparr>" "[\<lparr>text = ''there''\<rparr>]"]
  by (simp add: with_gemini_key_getApiKey hi_turns gemini_answers_def candidate_of_def failed_toast_def or_else_def
      with_gemini_key_effects)

text \<open>
  Claim C9. With a truthy credential, an ok response whose body parses and whose choices
  are not empty makes Provider-A's \<^verbatim>\<open>createChatCompletion\<close> return the message of the
  first choice as it is, role and content included.
\<close>

theorem openai_first_choice_verbatim:
  assumes "fst (OpenAI_getApiKey s) = Some k" and "k \<noteq> []"
      and "fetch e (OpenAI_request k msgs opts) = Resolved (Ok (Inr data))"
      and "choices data = c # cs"
  shows "fst (OpenAI_createChatCompletion e msgs opts s) = Returned (Some (message c))"
proof -
  obtain s0 where g: "OpenAI_getApiKey s = (Some k, s0)"
    using assms(1) by (cases "OpenAI_getApiKey s") simp
  show ?thesis
    using assms(2-4)
    by (simp add: OpenAI_createChatCompletion_def g truthy_def OpenAI_try_def Let_def)
qed

theorem openai_first_choice_verbatim_witness:
  "fst (OpenAI_getApiKey (with_openai_key ''sk-1'')) = Some ''sk-1'' \<and> ''sk-1'' \<noteq> [] \<and>
   fetch (openai_answers hello) (OpenAI_request ''sk-1'' hi no_options)
     = Resolved (Ok (Inr \<lparr>choices = [\<lparr>index = 0, message = hello, finish_reason = ''stop''\<rparr>]\<rparr>)) \<and>
   fst (OpenAI_createChatCompletion (openai_answers hello) hi no_options (with_openai_key ''sk-1''))
     = Returned (Some hello)"
  using openai_first_choice_verbatim [of "with_openai_key ''sk-1''" "''sk-1''"
      "openai_answers hello" hi no_options
      "\<lparr>choices = [\<lparr>index = 0, message = hello, finish_reason = ''stop''\<rparr>]\<rparr>"
      "\<lparr>index = 0, message = hello, finish_reason = ''stop''\<rparr>" "[]"]
  by (simp add: with_openai_key_getApiKey openai_answers_def)

text \<open>
  Claim C8, as written, fails for the model: \<^verbatim>\<open>options.model || this.defaultModel\<close>
  takes the default also when the model is set to the empty string. (The temperature, set
  to 0 in the same options, is sent as 0.)
\<close>

theorem default_model_for_empty_string:
  "model cold = Some [] \<and>
   requests (snd (OpenAI_createChatCompletion (openai_answers hello) hi cold
                    (with_openai_key ''sk-1''))) =
     [\<lparr>url = ''https://api.openai.com/v1/chat/completions'',
       http_method = ''POST'',
       headers = [(''Content-Type'', ''application/json''), (''Authorization'', ''Bearer sk-1'')],
       body = OpenAIBody \<lparr>req_model = ''gpt-4o-mini'', messages = hi, req_temperature = 0,
                          req_max_tokens = None\<rparr>\<rparr>]"
  by (simp add: OpenAI_createChatCompletion_def OpenAI_try_def Let_def with_openai_key_def
      OpenAI_setApiKey_def OpenAI_getApiKey_def truthy_def openai_answers_def fresh_def cold_def
      OpenAI_request_def OpenAI_baseUrl_def OpenAI_defaultModel_def or_else_def nullish_else_def)

text \<open>
  Claim C8, amended. With a truthy credential, a call performs one request. For Provider-A
  its body carries the model, for Provider-B its URL does: the provider's default
  (\<^verbatim>\<open>gpt-4o-mini\<close>, \<^verbatim>\<open>gemini-pro\<close>) exactly when \<^verbatim>\<open>options.model\<close> is unset or the empty
  string, else \<^verbatim>\<open>options.model\<close>. The temperature in the body is 0.7 exactly when
  \<^verbatim>\<open>options.temperature\<close> is unset, else the given one, 0 included.
\<close>

theorem request_defaults:
  "(fst (OpenAI_getApiKey s) = Some k \<and> k \<noteq> [] \<longrightarrow>
      requests (snd (OpenAI_createChatCompletion ea msgs opts s)) =
        requests s @
        [\<lparr>url = ''https://api.openai.com/v1/chat/completions'',
          http_method = ''POST'',
          headers = [(''Content-Type'', ''application/json''),
                     (''Authorization'', ''Bearer '' @ k)],
          body = OpenAIBody
            \<lparr>req_model = (case model opts of None \<Rightarrow> ''gpt-4o-mini''
                          | Some m \<Rightarrow> if m = [] then ''gpt-4o-mini'' else m),
             messages = msgs,
             req_temperature = (case temperature opts of None \<Rightarrow> 7 / 10 | Some t \<Rightarrow> t),
             req_max_tokens = max_tokens opts\<rparr>\<rparr>]) \<and>
   (fst (Gemini_getApiKey s) = Some k \<and> k \<noteq> [] \<and>
    geminiMessages (undefined_read eb) msgs = Inr gms \<longrightarrow>
      requests (snd (Gemini_createChatCompletion eb msgs opts s)) =
        requests s @
        [\<lparr>url = ''https://generativelanguage.googleapis.com/v1beta/models/''
                 @ (case model opts of None \<Rightarrow> ''gemini-pro''
                    | Some m \<Rightarrow> if m = [] then ''gemini-pro'' else m)
                 @ '':generateContent?key='' @ k,
          http_method = ''POST'',
          headers = [(''Content-Type'', ''application/json'')],
          body = GeminiBody
            \<lparr>contents = gms,
             generationConfig =
               \<lparr>gc_temperature = (case temperature opts of None \<Rightarrow> 7 / 10 | Some t \<Rightarrow> t),
                maxOutputTokens = max_tokens opts\<rparr>\<rparr>\<rparr>])"
proof (intro conjI impI)
  assume a: "fst (OpenAI_getApiKey s) = Some k \<and> k \<noteq> []"
  have "OpenAI_request k msgs opts =
        \<lparr>url = ''https://api.openai.com/v1/chat/completions'',
          http_method = ''POST'',
          headers = [(''Content-Type'', ''application/json''),
                     (''Authorization'', ''Bearer '' @ k)],
          body = OpenAIBody
            \<lparr>req_model = (case model opts of None \<Rightarrow> ''gpt-4o-mini''
                          | Some m \<Rightarrow> if m = [] then ''gpt-4o-mini'' else m),
             messages = msgs,
             req_temperature = (case temperature opts of None \<Rightarrow> 7 / 10 | Some t \<Rightarrow> t),
             req_max_tokens = max_tokens opts\<rparr>\<rparr>"
    by (simp add: OpenAI_request_def OpenAI_baseUrl_def OpenAI_defaultModel_def or_else_def
        nullish_else_def)
  then show "requests (snd (OpenAI_createChatCompletion ea msgs opts s)) =
        requests s @
        [\<lparr>url = ''https://api.openai.com/v1/chat/completions'',
          http_method = ''POST'',
          headers = [(''Content-Type'', ''application/json''),
                     (''Authorization'', ''Bearer '' @ k)],
          body = OpenAIBody
            \<lparr>req_model = (case model opts of None \<Rightarrow> ''gpt-4o-mini''
                          | Some m \<Rightarrow> if m = [] then ''gpt-4o-mini'' else m),
             messages = msgs,
             req_temperature = (case temperature opts of None \<Rightarrow> 7 / 10 | Some t \<Rightarrow> t),
             req_max_tokens = max_tokens opts\<rparr>\<rparr>]"
    using a OpenAI_createChatCompletion_requests [of s k ea msgs opts] by simp
next
  assume a: "fst (Gemini_getApiKey s) = Some k \<and> k \<noteq> [] \<and>
    geminiMessages (undefined_read eb) msgs = Inr gms"
  have "Gemini_request k gms opts =
        \<lparr>url = ''https://generativelanguage.googleapis.com/v1beta/models/''
                 @ (case model opts of None \<Rightarrow> ''gemini-pro''
                    | Some m \<Rightarrow> if m = [] then ''gemini-pro'' else m)
                 @ '':generateContent?key='' @ k,
          http_method = ''POST'',
          headers = [(''Content-Type'', ''application/json'')],
          body = GeminiBody
            \<lparr>contents = gms,
             generationConfig =
               \<lparr>gc_temperature = (case temperature opts of None \<Rightarrow> 7 / 10 | Some t \<Rightarrow> t),
                maxOutputTokens = max_tokens opts\<rparr>\<rparr>\<rparr>"
    by (simp add: Gemini_request_def Gemini_baseUrl_def Gemini_defaultModel_def or_else_def
        nullish_else_def Let_def)
  then show "requests (snd (Gemini_createChatCompletion eb msgs opts s)) =
        requests s @
        [\<lparr>url = ''https://generativelanguage.googleapis.com/v1beta/models/''
                 @ (case model opts of None \<Rightarrow> ''gemini-pro''
                    | Some m \<Rightarrow> if m = [] then ''gemini-pro'' else m)
                 @ '':generateContent?key='' @ k,
          http_method = ''POST'',
          headers = [(''Content-Type'', ''application/json'')],
          body = GeminiBody
            \<lparr>contents = gms,
             generationConfig =
               \<lparr>gc_temperature = (case temperature opts of None \<Rightarrow> 7 / 10 | Some t \<Rightarrow> t),
                maxOutputTokens = max_tokens opts\<rparr>\<rparr>\<rparr>]"
    using a Gemini_createChatCompletion_requests [of s k eb msgs gms opts] by simp
qed

theorem request_defaults_witness:
  "fst (OpenAI_getApiKey (with_openai_key ''sk-1'')) = Some ''sk-1'' \<and> ''sk-1'' \<noteq> [] \<and>
   requests (snd (OpenAI_createChatCompletion (openai_answers hello) hi warm
                    (with_openai_key ''sk-1''))) =
     [\<lparr>url = ''https://api.openai.com/v1/chat/completions'',
       http_method = ''POST'',
       headers = [(''Content-Type'', ''application/json''), (''Authorization'', ''Bearer sk-1'')],
       body = OpenAIBody \<lparr>req_model = ''gpt-4o'', messages = hi, req_temperature = 0,
                          req_max_tokens = Some 64\<rparr>\<rparr>] \<and>
   fst (Gemini_getApiKey (with_gemini_key ''AI-1'')) = Some ''AI-1'' \<and> ''AI-1'' \<noteq> [] \<and>
   geminiMessages engine_text hi = Inr [\<lparr>g_role = GeminiUser, parts = [\<lparr>text = ''Hi''\<rparr>]\<rparr>] \<and>
   requests (snd (Gemini_createChatCompletion (gemini_answers (Some [])) hi no_options
                    (with_gemini_key ''AI-1''))) =
     [\<lparr>url = ''https://generativelanguage.googleapis.com/v1beta/models/gemini-pro:generateContent?key=AI-1'',
       http_method = ''POST'',
       headers = [(''Content-Type'', ''application/json'')],
       body = GeminiBody
         \<lparr>contents = [\<lparr>g_role = GeminiUser, parts = [\<lparr>text = ''Hi''\<rparr>]\<rparr>],
          generationConfig = \<lparr>gc_temperature = 7 / 10, maxOutputTokens = None\<rparr>\<rparr>\<rparr>]"
  using request_defaults [of "with_openai_key ''sk-1''" "''sk-1''" "openai_answers hello" hi warm]
    request_defaults [of "with_gemini_key ''AI-1''" "''AI-1''" _ hi no_options
      "gemini_answers (Some [])" "[\<lparr>g_role = GeminiUser, parts = [\<lparr>text = ''Hi''\<rparr>]\<rparr>]"]
  by (simp add: with_openai_key_getApiKey with_gemini_key_getApiKey hi_turns with_openai_key_effects with_gemini_key_effects
      warm_def no_options_def gemini_answers_def)

text \<open>
  Claim C10. The empty credential, from every prior state: \<^verbatim>\<open>setApiKey("")\<close> returns true
  and leaves the empty string in \<^verbatim>\<open>localStorage\<close> and in the cache; \<^verbatim>\<open>getApiKey()\<close> right
  after returns the empty string; \<^verbatim>\<open>createChatCompletion\<close> then returns \<^verbatim>\<open>null\<close>, adds
  the "API Key Missing" toast and performs no request; after a reset of the cache
  \<^verbatim>\<open>getApiKey()\<close> returns \<^verbatim>\<open>null\<close> while \<^verbatim>\<open>localStorage\<close> still holds the empty string.
  A non-empty credential \<open>X\<close> behaves otherwise: it is read back after a cache reset, and
  \<^verbatim>\<open>createChatCompletion\<close> performs a request.
\<close>

theorem empty_credential_inconsistent:
  "fst (Gemini_setApiKey [] s) = True \<and>
   localStorage (snd (Gemini_setApiKey [] s)) ''gemini_api_key'' = Some [] \<and>
   gemini_apiKey (snd (Gemini_setApiKey [] s)) = Some [] \<and>
   fst (Gemini_getApiKey (snd (Gemini_setApiKey [] s))) = Some [] \<and>
   Gemini_createChatCompletion e msgs opts (snd (Gemini_setApiKey [] s)) =
     (Returned None,
      (snd (Gemini_setApiKey [] s))\<lparr>toasts := toasts s @ [Gemini_missing_toast]\<rparr>) \<and>
   requests (snd (Gemini_createChatCompletion e msgs opts (snd (Gemini_setApiKey [] s))))
     = requests s \<and>
   localStorage (Gemini_cache_reset (snd (Gemini_setApiKey [] s))) ''gemini_api_key'' = Some [] \<and>
   fst (Gemini_getApiKey (Gemini_cache_reset (snd (Gemini_setApiKey [] s)))) = None \<and>
   (X \<noteq> [] \<longrightarrow>
      fst (Gemini_getApiKey (Gemini_cache_reset (snd (Gemini_setApiKey X s)))) = Some X \<and>
      length (requests (snd (Gemini_createChatCompletion e msgs opts (snd (Gemini_setApiKey X s)))))
        = Suc (length (requests s)))"
proof -
  have contrast: "length (requests (snd (Gemini_createChatCompletion e msgs opts
                     (snd (Gemini_setApiKey X s))))) = Suc (length (requests s))"
    if "X \<noteq> []"
  proof -
    obtain gms where gms: "geminiMessages (undefined_read e) msgs = Inr gms"
      using geminiMessages_total by blast
    have k: "fst (Gemini_getApiKey (snd (Gemini_setApiKey X s))) = Some X"
      by (simp add: Gemini_getApiKey_def Gemini_setApiKey_def truthy_def Let_def)
    have "requests (snd (Gemini_setApiKey X s)) = requests s"
      by (simp add: Gemini_setApiKey_def)
    then show ?thesis
      using Gemini_createChatCompletion_requests [OF k that gms, of opts] by simp
  qed
  show ?thesis
    using contrast
    by (simp add: Gemini_getApiKey_def Gemini_setApiKey_def Gemini_cache_reset_def truthy_def
        Let_def Gemini_createChatCompletion_def)
qed

theorem empty_credential_inconsistent_witness:
  "''AI-1'' \<noteq> [] \<and>
   fst (Gemini_getApiKey (snd (Gemini_setApiKey [] fresh))) = Some [] \<and>
   fst (Gemini_createChatCompletion (gemini_answers (Some [candidate_of [''Hello'']])) hi no_options
          (snd (Gemini_setApiKey [] fresh))) = Returned None \<and>
   toasts (snd (Gemini_createChatCompletion (gemini_answers (Some [candidate_of [''Hello'']])) hi
          no_options (snd (Gemini_setApiKey [] fresh)))) = [Gemini_missing_toast] \<and>
   requests (snd (Gemini_createChatCompletion (gemini_answers (Some [candidate_of [''Hello'']])) hi
          no_options (snd (Gemini_setApiKey [] fresh)))) = [] \<and>
   fst (Gemini_getApiKey (Gemini_cache_reset (snd (Gemini_setApiKey [] fresh)))) = None \<and>
   fst (Gemini_getApiKey (Gemini_cache_reset (snd (Gemini_setApiKey ''AI-1'' fresh))))
     = Some ''AI-1'' \<and>
   length (requests (snd (Gemini_createChatCompletion
          (gemini_answers (Some [candidate_of [''Hello'']])) hi no_options
          (snd (Gemini_setApiKey ''AI-1'' fresh))))) = 1"
  using empty_credential_inconsistent [of fresh "gemini_answers (Some [candidate_of [''Hello'']])"
      hi no_options "''AI-1''"]
  by (simp add: fresh_effects Gemini_setApiKey_effects)

end
